theory Spec2Isabelle
  imports Main
begin

section \<open>Python strings\<close>

text \<open>
  Strings are character lists. The module only uses \<open>len\<close>, concatenation,
  \<open>"\n".join\<close>, \<open>split('\n')\<close>, \<open>lower()\<close> and the substring test \<open>in\<close>;
  each is written out below. \<open>lower()\<close> is modelled on the ASCII letters.
\<close>

definition NL :: char where
  "NL = CHR 0x0A"

text \<open>\<open>"\n".join(xs)\<close>: the empty list gives the empty string.\<close>

fun join_nl :: "string list \<Rightarrow> string" where
  "join_nl [] = []"
| "join_nl [x] = x"
| "join_nl (x # y # ys) = x @ NL # join_nl (y # ys)"

text \<open>\<open>s.split('\n')\<close>: always at least one piece; \<open>"".split('\n') == ['']\<close>.\<close>

fun split_nl :: "string \<Rightarrow> string list" where
  "split_nl [] = [[]]"
| "split_nl (c # cs) =
     (if c = NL then [] # split_nl cs
      else (case split_nl cs of
              [] \<Rightarrow> [[c]]
            | w # ws \<Rightarrow> (c # w) # ws))"

definition lower_char :: "char \<Rightarrow> char" where
  "lower_char c =
     (case map_of (zip ''ABCDEFGHIJKLMNOPQRSTUVWXYZ'' ''abcdefghijklmnopqrstuvwxyz'') c of
        None \<Rightarrow> c
      | Some d \<Rightarrow> d)"

definition lower :: "string \<Rightarrow> string" where
  "lower s = map lower_char s"

text \<open>\<open>s.startswith(p)\<close> and the substring test \<open>p in s\<close>.\<close>

fun startswith :: "string \<Rightarrow> string \<Rightarrow> bool" where
  "startswith s [] = True"
| "startswith [] (p # ps) = False"
| "startswith (c # cs) (p # ps) = (c = p \<and> startswith cs ps)"

fun py_in :: "string \<Rightarrow> string \<Rightarrow> bool" where
  "py_in p [] = (p = [])"
| "py_in p (c # cs) = (startswith (c # cs) p \<or> py_in p cs)"

section \<open>Blocks and their simplification\<close>

text \<open>
  A Notion block is a dictionary with a \<open>type\<close> entry and, under the name of its type,
  a payload dictionary holding \<open>rich_text\<close> (a list of spans, each with a
  \<open>plain_text\<close>) and the kind-specific \<open>checked\<close> and \<open>language\<close>. Every lookup in
  the source is a \<open>.get\<close> with a default, so every entry is optional here. The
  payloads of a block are kept as an association list read with \<open>map_of\<close>.
\<close>

record span =
  plain_text :: "string option"

record payload =
  rich_text :: "span list option"
  p_checked :: "bool option"
  p_language :: "string option"

record block =
  block_type :: "string option"
  block_fields :: "(string \<times> payload) list"

text \<open>The dictionary built by \<open>simplify_block_content\<close>: \<open>type\<close> and \<open>content\<close> are
  always set, \<open>checked\<close> and \<open>language\<close> only by the branches that assign them.\<close>

record simplified =
  stype :: "string option"
  content :: string
  checked :: "bool option"
  language :: "string option"

text \<open>\<open>extract_plain_text\<close>: an empty list gives \<open>""\<close> by the early return, and by the
  join as well.\<close>

definition extract_plain_text :: "span list \<Rightarrow> string" where
  "extract_plain_text rich_text_list =
     (if rich_text_list = [] then []
      else concat (map (\<lambda>text. case plain_text text of None \<Rightarrow> [] | Some s \<Rightarrow> s)
                       rich_text_list))"

text \<open>\<open>block.get(k, {})\<close> followed by \<open>.get('rich_text', [])\<close>, \<open>.get('checked', False)\<close>
  and \<open>.get('language', '')\<close>.\<close>

definition get_rich_text :: "block \<Rightarrow> string \<Rightarrow> span list" where
  "get_rich_text b k =
     (case map_of (block_fields b) k of
        None \<Rightarrow> []
      | Some p \<Rightarrow> (case rich_text p of None \<Rightarrow> [] | Some r \<Rightarrow> r))"

definition get_checked :: "block \<Rightarrow> string \<Rightarrow> bool" where
  "get_checked b k =
     (case map_of (block_fields b) k of
        None \<Rightarrow> False
      | Some p \<Rightarrow> (case p_checked p of None \<Rightarrow> False | Some c \<Rightarrow> c))"

definition get_language :: "block \<Rightarrow> string \<Rightarrow> string" where
  "get_language b k =
     (case map_of (block_fields b) k of
        None \<Rightarrow> []
      | Some p \<Rightarrow> (case p_language p of None \<Rightarrow> [] | Some l \<Rightarrow> l))"

definition simplify_block_content :: "block \<Rightarrow> simplified" where
  "simplify_block_content b =
     (let block_type = block_type b;
          simplified = \<lparr>stype = block_type, content = [], checked = None, language = None\<rparr>
      in if block_type = Some ''paragraph'' then
           simplified\<lparr>content := extract_plain_text (get_rich_text b ''paragraph'')\<rparr>
         else if block_type = Some ''heading_1'' then
           simplified\<lparr>content := extract_plain_text (get_rich_text b ''heading_1'')\<rparr>
         else if block_type = Some ''heading_2'' then
           simplified\<lparr>content := extract_plain_text (get_rich_text b ''heading_2'')\<rparr>
         else if block_type = Some ''heading_3'' then
           simplified\<lparr>content := extract_plain_text (get_rich_text b ''heading_3'')\<rparr>
         else if block_type = Some ''bulleted_list_item'' then
           simplified\<lparr>content := extract_plain_text (get_rich_text b ''bulleted_list_item'')\<rparr>
         else if block_type = Some ''numbered_list_item'' then
           simplified\<lparr>content := extract_plain_text (get_rich_text b ''numbered_list_item'')\<rparr>
         else if block_type = Some ''to_do'' then
           simplified\<lparr>content := extract_plain_text (get_rich_text b ''to_do''),
                      checked := Some (get_checked b ''to_do'')\<rparr>
         else if block_type = Some ''toggle'' then
           simplified\<lparr>content := extract_plain_text (get_rich_text b ''toggle'')\<rparr>
         else if block_type = Some ''code'' then
           simplified\<lparr>content := extract_plain_text (get_rich_text b ''code''),
                      language := Some (get_language b ''code'')\<rparr>
         else simplified)"

definition known_types :: "string list" where
  "known_types =
     [''paragraph'', ''heading_1'', ''heading_2'', ''heading_3'', ''bulleted_list_item'',
      ''numbered_list_item'', ''to_do'', ''toggle'', ''code'']"

text \<open>
  The loop of \<open>get_page_content_simplified\<close> that fills \<open>simplified_blocks\<close>:
  \<open>for i, block in enumerate(blocks): if i >= max_blocks: break; append(...)\<close>.
\<close>

fun simplify_loop :: "int \<Rightarrow> nat \<Rightarrow> block list \<Rightarrow> simplified list \<Rightarrow> simplified list" where
  "simplify_loop max_blocks i [] simplified_blocks = simplified_blocks"
| "simplify_loop max_blocks i (b # bs) simplified_blocks =
     (if int i \<ge> max_blocks then simplified_blocks
      else simplify_loop max_blocks (Suc i) bs
             (simplified_blocks @ [simplify_block_content b]))"

definition simplified_blocks :: "int \<Rightarrow> block list \<Rightarrow> simplified list" where
  "simplified_blocks max_blocks blocks = simplify_loop max_blocks 0 blocks []"

section \<open>The summary\<close>

text \<open>The part of \<open>generate_page_summary\<close> after the page content has been obtained: a
  function of the simplified blocks and \<open>max_length\<close>.\<close>

fun text_blocks :: "simplified list \<Rightarrow> string list" where
  "text_blocks [] = []"
| "text_blocks (b # bs) =
     (if content b \<noteq> [] then content b # text_blocks bs else text_blocks bs)"

definition summary_keywords :: "string list" where
  "summary_keywords = [''important'', ''key'', ''main'', ''critical'', ''essential'', ''conclusion'']"

definition has_keyword :: "string \<Rightarrow> bool" where
  "has_keyword paragraph = list_ex (\<lambda>keyword. py_in keyword (lower paragraph)) summary_keywords"

text \<open>The \<open>for paragraph in paragraphs[1:]\<close> loop.\<close>

fun keyword_pass :: "int \<Rightarrow> string list \<Rightarrow> string \<Rightarrow> string" where
  "keyword_pass max_length [] summary = summary"
| "keyword_pass max_length (paragraph # rest) summary =
     (if int (length summary) \<ge> max_length then summary
      else if has_keyword paragraph then
        (if int (length summary) + int (length paragraph) + 1 \<le> max_length
         then keyword_pass max_length rest (summary @ NL # paragraph)
         else keyword_pass max_length rest summary)
      else keyword_pass max_length rest summary)"

text \<open>The \<open>while i < len(paragraphs) and ...\<close> loop.\<close>

function more_paragraphs :: "int \<Rightarrow> string list \<Rightarrow> nat \<Rightarrow> string \<Rightarrow> string" where
  "more_paragraphs max_length paragraphs i summary =
     (if i < length paragraphs then
        (if int (length summary) + int (length (paragraphs ! i)) + 1 \<le> max_length then
           more_paragraphs max_length paragraphs (Suc i)
             (if \<not> py_in (paragraphs ! i) summary then summary @ NL # paragraphs ! i
              else summary)
         else summary)
      else summary)"
  by pat_completeness auto
termination
  by (relation "measure (\<lambda>(max_length, paragraphs, i, summary). length paragraphs - i)") auto

definition generate_page_summary :: "simplified list \<Rightarrow> int \<Rightarrow> string" where
  "generate_page_summary blocks max_length =
     (let full_text = join_nl (text_blocks blocks)
      in if int (length full_text) \<le> max_length then full_text
         else
           (let paragraphs = split_nl full_text;
                summary = (case paragraphs of [] \<Rightarrow> [] | p # _ \<Rightarrow> p);
                summary = keyword_pass max_length (tl paragraphs) summary
            in more_paragraphs max_length paragraphs 1 summary))"

section \<open>The cache\<close>

text \<open>
  Values that pass through the cache are JSON values; Python's \<open>None\<close> is \<open>JNull\<close>.
  Numbers are integers here.
\<close>

datatype json =
    JNull
  | JBool bool
  | JNum int
  | JStr string
  | JArr "json list"
  | JObj "(string \<times> json) list"

text \<open>Truth value of a Python object, as tested by \<open>if x:\<close>.\<close>

fun truthy :: "json \<Rightarrow> bool" where
  "truthy JNull = False"
| "truthy (JBool b) = b"
| "truthy (JNum n) = (n \<noteq> 0)"
| "truthy (JStr s) = (s \<noteq> [])"
| "truthy (JArr xs) = (xs \<noteq> [])"
| "truthy (JObj kvs) = (kvs \<noteq> [])"

text \<open>The exceptions that can leave the functions below. \<open>RequestError\<close> stands for
  whatever \<open>requests.get\<close>, \<open>raise_for_status\<close> or \<open>response.json\<close> raise.\<close>

datatype py_error =
    JSONDecodeError
  | AttributeError
  | TypeError
  | ValueError
  | RequestError string

text \<open>\<open>d.get(k, dflt)\<close>: only a dictionary has the method.\<close>

fun py_get :: "json \<Rightarrow> string \<Rightarrow> json \<Rightarrow> py_error + json" where
  "py_get (JObj kvs) k dflt = Inr (case map_of kvs k of None \<Rightarrow> dflt | Some v \<Rightarrow> v)"
| "py_get _ k dflt = Inl AttributeError"

text \<open>
  A cache file is kept as what \<open>json.load\<close> makes of its text: it raises
  \<open>JSONDecodeError\<close>, or it returns a value; \<open>json.dump\<close> of a value writes a text that
  loads as that value. The file system is a map from paths to files, in which every
  write succeeds.
\<close>

datatype file_content = Unparsable | Parsed json

type_synonym files = "string \<rightharpoonup> file_content"

text \<open>
  A \<open>datetime\<close> is the number of microseconds since 0001-01-01T00:00:00, so that
  \<open>datetime.now() - last_updated < timedelta(hours=24)\<close> is a comparison of integers.
  The two conversions of the standard library are parameters: \<open>isoformat\<close>, and
  \<open>fromisoformat\<close>, which is \<open>None\<close> where the library raises \<open>ValueError\<close>.
\<close>

type_synonym datetime = int

record clock_lib =
  isoformat :: "datetime \<Rightarrow> string"
  fromisoformat :: "string \<Rightarrow> datetime option"

definition timedelta_hours :: "int \<Rightarrow> int" where
  "timedelta_hours h = h * 3600 * 1000000"

text \<open>\<open>datetime(2000, 1, 1)\<close>: day 730119 after 0001-01-01.\<close>

definition datetime_2000_01_01 :: datetime where
  "datetime_2000_01_01 = 730119 * 86400 * 1000000"

text \<open>\<open>os.path.join(a, b)\<close> on POSIX.\<close>

definition path_join :: "string \<Rightarrow> string \<Rightarrow> string" where
  "path_join a b =
     (if startswith b ''/'' then b
      else if a = [] \<or> last a = CHR ''/'' then a @ b
      else a @ ''/'' @ b)"

subsection \<open>NotionCache\<close>

definition get_cache_path :: "string \<Rightarrow> string \<Rightarrow> string" where
  "get_cache_path cache_dir page_id = path_join cache_dir (page_id @ ''.json'')"

definition get_cached_page ::
  "clock_lib \<Rightarrow> string \<Rightarrow> files \<Rightarrow> datetime \<Rightarrow> string \<Rightarrow> py_error + json" where
  "get_cached_page lib cache_dir fs now page_id =
     (let cache_path = get_cache_path cache_dir page_id
      in case fs cache_path of
           None \<Rightarrow> Inr JNull
         | Some Unparsable \<Rightarrow> Inl JSONDecodeError
         | Some (Parsed cached_data) \<Rightarrow>
             (case py_get cached_data ''cached_at'' (JStr ''2000-01-01'') of
                Inl e \<Rightarrow> Inl e
              | Inr (JStr s) \<Rightarrow>
                  (case fromisoformat lib s of
                     None \<Rightarrow> Inl ValueError
                   | Some last_updated \<Rightarrow>
                       if now - last_updated < timedelta_hours 24
                       then py_get cached_data ''content'' JNull
                       else Inr JNull)
              | Inr _ \<Rightarrow> Inl TypeError))"

definition update_cache ::
  "clock_lib \<Rightarrow> string \<Rightarrow> files \<Rightarrow> datetime \<Rightarrow> string \<Rightarrow> json \<Rightarrow> files" where
  "update_cache lib cache_dir fs now page_id content_value =
     (let cache_path = get_cache_path cache_dir page_id;
          cache_data = JObj [(''content'', content_value),
                             (''cached_at'', JStr (isoformat lib now))]
      in fs(cache_path \<mapsto> Parsed cache_data))"

definition get_page_content ::
  "clock_lib \<Rightarrow> string \<Rightarrow> files \<Rightarrow> datetime \<Rightarrow> string \<Rightarrow> bool \<Rightarrow> py_error + json" where
  "get_page_content lib cache_dir fs now page_id force_refresh =
     (if \<not> force_refresh then
        (case get_cached_page lib cache_dir fs now page_id of
           Inl e \<Rightarrow> Inl e
         | Inr cached_content \<Rightarrow>
             if truthy cached_content then Inr cached_content else Inr JNull)
      else Inr JNull)"

subsection \<open>NotionManager\<close>

text \<open>
  The manager's state is the cache files and the log of the URLs handed to
  \<open>requests.get\<close>. The remote service is a parameter \<open>http_get\<close>: for a URL, the decoded
  body of the response, or the exception raised on the way to it. The clock is read once
  by the cache lookup (\<open>now_get\<close>) and once by the cache update (\<open>now_put\<close>).
\<close>

record world =
  files :: files
  requests :: "string list"

definition base_url :: string where
  "base_url = ''https://api.notion.com/v1''"

definition manager_cache_dir :: string where
  "manager_cache_dir = ''.notion_cache''"

definition page_url :: "string \<Rightarrow> string" where
  "page_url page_id = base_url @ ''/pages/'' @ page_id"

definition children_url :: "string \<Rightarrow> string" where
  "children_url block_id = base_url @ ''/blocks/'' @ block_id @ ''/children''"

definition get_page ::
  "clock_lib \<Rightarrow> (string \<Rightarrow> py_error + json) \<Rightarrow> world \<Rightarrow> datetime \<Rightarrow> datetime \<Rightarrow>
   string \<Rightarrow> bool \<Rightarrow> (py_error + json) \<times> world" where
  "get_page lib http_get w now_get now_put page_id force_refresh =
     (case get_page_content lib manager_cache_dir (files w) now_get page_id force_refresh of
        Inl e \<Rightarrow> (Inl e, w)
      | Inr cached_page \<Rightarrow>
          if truthy cached_page \<and> \<not> force_refresh then (Inr cached_page, w)
          else
            (let url = page_url page_id;
                 w1 = w\<lparr>requests := requests w @ [url]\<rparr>
             in case http_get url of
                  Inl e \<Rightarrow> (Inl e, w1)
                | Inr page_data \<Rightarrow>
                    (Inr page_data,
                     w1\<lparr>files := update_cache lib manager_cache_dir (files w1) now_put
                                    page_id page_data\<rparr>)))"

definition get_block_children ::
  "clock_lib \<Rightarrow> (string \<Rightarrow> py_error + json) \<Rightarrow> world \<Rightarrow> datetime \<Rightarrow> datetime \<Rightarrow>
   string \<Rightarrow> bool \<Rightarrow> (py_error + json) \<times> world" where
  "get_block_children lib http_get w now_get now_put block_id force_refresh =
     (let cache_key = block_id @ ''_children''
      in case get_page_content lib manager_cache_dir (files w) now_get cache_key
                force_refresh of
           Inl e \<Rightarrow> (Inl e, w)
         | Inr cached_blocks \<Rightarrow>
             if truthy cached_blocks \<and> \<not> force_refresh then (Inr cached_blocks, w)
             else
               (let url = children_url block_id;
                    w1 = w\<lparr>requests := requests w @ [url]\<rparr>
                in case http_get url of
                     Inl e \<Rightarrow> (Inl e, w1)
                   | Inr body \<Rightarrow>
                       (case py_get body ''results'' (JArr []) of
                          Inl e \<Rightarrow> (Inl e, w1)
                        | Inr blocks_data \<Rightarrow>
                            (Inr blocks_data,
                             w1\<lparr>files := update_cache lib manager_cache_dir (files w1)
                                            now_put cache_key blocks_data\<rparr>))))"

section \<open>Example data\<close>

text \<open>Blocks, an excerpt of the clock library at the instants used below, and a remote
  service, for the concrete instances of the theorems.\<close>

definition text_block :: "string \<Rightarrow> string \<Rightarrow> block" where
  "text_block kind s =
     \<lparr>block_type = Some kind,
      block_fields = [(kind, \<lparr>rich_text = Some [\<lparr>plain_text = Some s\<rparr>],
                              p_checked = None, p_language = None\<rparr>)]\<rparr>"

definition paragraphs_of :: "string list \<Rightarrow> simplified list" where
  "paragraphs_of xs = simplified_blocks 50 (map (text_block ''paragraph'') xs)"

definition datetime_2024_01_02 :: datetime where
  "datetime_2024_01_02 = 738886 * 86400 * 1000000"

definition example_clock :: clock_lib where
  "example_clock =
     \<lparr>isoformat = (\<lambda>t. if t = datetime_2024_01_02 then ''2024-01-02T00:00:00''
                        else if t = datetime_2000_01_01 then ''2000-01-01T00:00:00''
                        else []),
      fromisoformat = map_of [(''2000-01-01'', datetime_2000_01_01),
                              (''2000-01-01T00:00:00'', datetime_2000_01_01),
                              (''2024-01-02T00:00:00'', datetime_2024_01_02)]\<rparr>"

definition example_http :: "string \<Rightarrow> py_error + json" where
  "example_http url =
     (if url = page_url ''p1'' then Inr (JObj [(''id'', JStr ''p1'')])
      else if url = children_url ''b1'' then Inr (JObj [(''results'', JArr [])])
      else if url = children_url ''b2'' then
        Inr (JObj [(''results'', JArr [JObj [(''type'', JStr ''paragraph'')]])])
      else Inl (RequestError ''404''))"

definition cache_entry :: "json \<Rightarrow> string \<Rightarrow> file_content" where
  "cache_entry v stamp = Parsed (JObj [(''content'', v), (''cached_at'', JStr stamp)])"

definition mixed_blocks :: "simplified list" where
  "mixed_blocks =
     simplified_blocks 50
       [text_block ''paragraph'' ''Hello'', text_block ''divider'' ''x'',
        text_block ''paragraph'' ''World'']"



definition fifty_one_blocks :: "block list" where
  "fifty_one_blocks = replicate 51 (text_block ''paragraph'' ''x'')"

text \<open>Cache directories: a file that is not JSON, a valid entry holding an empty list, a
  valid entry holding a page, and an entry without \<open>cached_at\<close>.\<close>

definition broken_cache :: files where
  "broken_cache = map_of [(''.notion_cache/p1.json'', Unparsable)]"

definition empty_children_cache :: files where
  "empty_children_cache =
     map_of [(''.notion_cache/b2_children.json'',
              cache_entry (JArr []) ''2024-01-02T00:00:00'')]"

definition old_page_cache :: files where
  "old_page_cache =
     map_of [(''.notion_cache/p1.json'',
              cache_entry (JObj [(''id'', JStr ''old'')]) ''2024-01-02T00:00:00'')]"

definition undated_cache :: files where
  "undated_cache =
     map_of [(''.notion_cache/p1.json'', Parsed (JObj [(''content'', JStr ''x'')]))]"

section \<open>Properties of the flattening\<close>

declare more_paragraphs.simps [simp del]

lemma simplify_loop_take:
  "simplify_loop mb i bs acc = acc @ map simplify_block_content (take (nat (mb - int i)) bs)"
proof (induction bs arbitrary: i acc)
  case Nil
  show ?case by simp
next
  case (Cons b bs)
  show ?case
  proof (cases "int i \<ge> mb")
    case True
    then show ?thesis by simp
  next
    case False
    then have "nat (mb - int i) = Suc (nat (mb - int (Suc i)))" by simp
    with False Cons show ?thesis by simp
  qed
qed

lemma simplified_blocks_take:
  "simplified_blocks mb blocks = map simplify_block_content (take (nat mb) blocks)"
  by (simp add: simplified_blocks_def simplify_loop_take)

lemma unknown_type_content:
  "block_type b \<notin> Some ` set known_types \<Longrightarrow> content (simplify_block_content b) = []"
  by (simp add: simplify_block_content_def known_types_def Let_def)

lemma type_copied: "stype (simplify_block_content b) = block_type b"
  by (simp add: simplify_block_content_def Let_def)


text \<open>
  C4 (amended). The loop of \<open>get_page_content_simplified\<close> emits the simplification of
  the first \<open>max_blocks\<close> blocks, in input order: \<open>min N max_blocks\<close> records for \<open>N\<close>
  blocks, hence exactly \<open>N\<close> when \<open>N \<le> max_blocks\<close>. A block whose type is none of the
  nine known ones (or is missing) gives a record with \<open>content = ""\<close>.
\<close>

theorem flatten_shape:
  "simplified_blocks max_blocks blocks =
     map simplify_block_content (take (nat max_blocks) blocks)
   \<and> length (simplified_blocks max_blocks blocks) = min (length blocks) (nat max_blocks)
   \<and> (block_type b \<notin> Some ` set known_types \<longrightarrow> content (simplify_block_content b) = [])"
  by (simp add: simplified_blocks_take unknown_type_content)

theorem flatten_shape_witness:
  "block_type (text_block ''divider'' ''x'') \<notin> Some ` set known_types
   \<and> content (simplify_block_content (text_block ''divider'' ''x'')) = []
   \<and> simplified_blocks 50 [text_block ''paragraph'' ''Hello'', text_block ''divider'' ''x''] =
       [\<lparr>stype = Some ''paragraph'', content = ''Hello'', checked = None, language = None\<rparr>,
        \<lparr>stype = Some ''divider'', content = [], checked = None, language = None\<rparr>]"
  using flatten_shape [of 50 "[text_block ''paragraph'' ''Hello'', text_block ''divider'' ''x'']"
                          "text_block ''divider'' ''x''"]
  by (simp add: text_block_def known_types_def simplify_block_content_def get_rich_text_def
        extract_plain_text_def)

text \<open>With the default \<open>max_blocks = 50\<close>, 51 blocks give 50 records.\<close>

theorem flatten_count_counterexample:
  "length fifty_one_blocks = 51 \<and> length (simplified_blocks 50 fifty_one_blocks) = 50"
  by (simp add: fifty_one_blocks_def simplified_blocks_take)

section \<open>Properties of the summary\<close>

lemma split_nl_nonempty: "split_nl s \<noteq> []"
  by (induction s) (auto split: list.splits)









lemma text_blocks_filter:
  "text_blocks blocks = filter (\<lambda>s. s \<noteq> []) (map content blocks)"
  by (induction blocks) auto








lemma keyword_pass_bound:
  "int (length s) \<le> ml \<Longrightarrow> int (length (keyword_pass ml rest s)) \<le> ml"
  by (induction rest arbitrary: s) auto

lemma more_paragraphs_bound:
  "int (length s) \<le> ml \<Longrightarrow> int (length (more_paragraphs ml P i s)) \<le> ml"
proof (induction ml P i s rule: more_paragraphs.induct)
  case (1 ml P i s)
  show ?case
  proof (cases "i < length P \<and> int (length s) + int (length (P ! i)) + 1 \<le> ml")
    case False
    then have "more_paragraphs ml P i s = s"
      by (subst more_paragraphs.simps) auto
    with 1 show ?thesis by simp
  next
    case True
    then have step: "more_paragraphs ml P i s = more_paragraphs ml P (Suc i)
        (if \<not> py_in (P ! i) s then s @ NL # P ! i else s)"
      by (subst more_paragraphs.simps) simp
    show ?thesis unfolding step using "1.IH" True "1.prems" by auto
  qed
qed



text \<open>When the first paragraph fits, so does the summary.\<close>

lemma summary_within_max_length:
  assumes "int (length (hd (split_nl (join_nl (text_blocks blocks))))) \<le> max_length"
  shows "int (length (generate_page_summary blocks max_length)) \<le> max_length"
proof (cases "int (length (join_nl (text_blocks blocks))) \<le> max_length")
  case True
  then show ?thesis by (simp add: generate_page_summary_def)
next
  case False
  obtain p0 rest where P: "split_nl (join_nl (text_blocks blocks)) = p0 # rest"
    using split_nl_nonempty [of "join_nl (text_blocks blocks)"]
    by (cases "split_nl (join_nl (text_blocks blocks))") auto
  have res: "generate_page_summary blocks max_length =
      more_paragraphs max_length (p0 # rest) 1 (keyword_pass max_length rest p0)"
    using False P by (simp add: generate_page_summary_def)
  from assms P have "int (length p0) \<le> max_length" by simp
  then show ?thesis unfolding res by (intro more_paragraphs_bound keyword_pass_bound)
qed

text \<open>
  C5. The docstring gives \<open>max_length\<close> as the maximum length of the summary, but the
  first paragraph is taken whatever its length: a single paragraph of 11 characters with
  \<open>max_length = 5\<close> triggers the truncation and comes back whole.
\<close>

theorem summary_exceeds_max_length:
  "int (length (join_nl (text_blocks (paragraphs_of [''Hello World''])))) > 5
   \<and> generate_page_summary (paragraphs_of [''Hello World'']) 5 = ''Hello World''
   \<and> int (length (generate_page_summary (paragraphs_of [''Hello World'']) 5)) > 5"
  by code_simp

text \<open>
  C6. When the non-empty contents of the blocks, joined with newlines, are at most
  \<open>max_length\<close> long, the summary is exactly that joined text; blocks with empty content
  leave no trace in it.
\<close>

theorem short_document_identity:
  "int (length (join_nl (filter (\<lambda>s. s \<noteq> []) (map content blocks)))) \<le> max_length \<Longrightarrow>
   generate_page_summary blocks max_length =
     join_nl (filter (\<lambda>s. s \<noteq> []) (map content blocks))"
  by (simp add: generate_page_summary_def text_blocks_filter)

theorem short_document_identity_witness:
  "map content mixed_blocks = [''Hello'', [], ''World'']
   \<and> int (length (join_nl (filter (\<lambda>s. s \<noteq> []) (map content mixed_blocks)))) \<le> 500
   \<and> generate_page_summary mixed_blocks 500 = ''Hello'' @ NL # ''World''"
proof -
  have c: "map content mixed_blocks = [''Hello'', [], ''World'']"
    by code_simp
  have fits: "int (length (join_nl (filter (\<lambda>s. s \<noteq> []) (map content mixed_blocks)))) \<le> 500"
    by (simp add: c)
  have j: "join_nl (filter (\<lambda>s. s \<noteq> []) (map content mixed_blocks)) = ''Hello'' @ NL # ''World''"
    by (simp add: c)
  from c fits j short_document_identity [OF fits] show ?thesis by simp
qed




section \<open>Properties of the cache\<close>

lemma get_cached_page_missing:
  "fs (get_cache_path cache_dir page_id) = None \<Longrightarrow>
   get_cached_page lib cache_dir fs now page_id = Inr JNull"
  by (simp add: get_cached_page_def)

lemma get_cached_page_unparsable:
  "fs (get_cache_path cache_dir page_id) = Some Unparsable \<Longrightarrow>
   get_cached_page lib cache_dir fs now page_id = Inl JSONDecodeError"
  by (simp add: get_cached_page_def)

lemma get_cached_page_dated:
  "fs (get_cache_path cache_dir page_id) = Some (Parsed (JObj kvs)) \<Longrightarrow>
   map_of kvs ''cached_at'' = Some (JStr stamp) \<Longrightarrow>
   fromisoformat lib stamp = Some last_updated \<Longrightarrow>
   get_cached_page lib cache_dir fs now page_id =
     (if now - last_updated < timedelta_hours 24
      then Inr (case map_of kvs ''content'' of None \<Rightarrow> JNull | Some v \<Rightarrow> v)
      else Inr JNull)"
  by (simp add: get_cached_page_def)

lemma get_cached_page_undated:
  "fs (get_cache_path cache_dir page_id) = Some (Parsed (JObj kvs)) \<Longrightarrow>
   map_of kvs ''cached_at'' = None \<Longrightarrow>
   fromisoformat lib ''2000-01-01'' = Some last_updated \<Longrightarrow>
   get_cached_page lib cache_dir fs now page_id =
     (if now - last_updated < timedelta_hours 24
      then Inr (case map_of kvs ''content'' of None \<Rightarrow> JNull | Some v \<Rightarrow> v)
      else Inr JNull)"
  by (simp add: get_cached_page_def)

lemma get_after_update:
  "fromisoformat lib (isoformat lib t0) = Some t0 \<Longrightarrow>
   get_cached_page lib cache_dir (update_cache lib cache_dir fs t0 page_id v) t1 page_id =
     Inr (if t1 - t0 < timedelta_hours 24 then v else JNull)"
  by (simp add: get_cached_page_def update_cache_def)

text \<open>
  C1 (amended). A lookup whose cache file is missing returns \<open>None\<close> and raises nothing.
  A cache file that \<open>json.load\<close> rejects is not caught: the lookup raises
  \<open>JSONDecodeError\<close>.
\<close>

theorem cache_read_failures:
  "(fs (get_cache_path cache_dir page_id) = None \<longrightarrow>
      get_cached_page lib cache_dir fs now page_id = Inr JNull)
   \<and> (fs (get_cache_path cache_dir page_id) = Some Unparsable \<longrightarrow>
      get_cached_page lib cache_dir fs now page_id = Inl JSONDecodeError)"
  by (simp add: get_cached_page_missing get_cached_page_unparsable)

theorem cache_read_failures_witness:
  "broken_cache (get_cache_path manager_cache_dir ''p2'') = None
   \<and> get_cached_page example_clock manager_cache_dir broken_cache datetime_2024_01_02 ''p2'' = Inr JNull
   \<and> broken_cache (get_cache_path manager_cache_dir ''p1'') = Some Unparsable
   \<and> get_cached_page example_clock manager_cache_dir broken_cache datetime_2024_01_02 ''p1'' =
       Inl JSONDecodeError"
proof -
  have a: "broken_cache (get_cache_path manager_cache_dir ''p2'') = None" by code_simp
  have b: "broken_cache (get_cache_path manager_cache_dir ''p1'') = Some Unparsable" by code_simp
  from a b
    cache_read_failures [of broken_cache manager_cache_dir "''p2''" example_clock datetime_2024_01_02]
    cache_read_failures [of broken_cache manager_cache_dir "''p1''" example_clock datetime_2024_01_02]
  show ?thesis by simp
qed

text \<open>The file of \<open>p1\<close> is not JSON: the lookup raises.\<close>

theorem malformed_cache_file_counterexample:
  "broken_cache (get_cache_path manager_cache_dir ''p1'') = Some Unparsable
   \<and> get_cached_page example_clock manager_cache_dir broken_cache datetime_2024_01_02 ''p1'' =
       Inl JSONDecodeError"
  by code_simp

text \<open>
  C2. A lookup after \<open>update_cache\<close> of \<open>v\<close> under the same key returns \<open>v\<close> as long as
  less than 24 hours have passed since the update, and \<open>None\<close> from 24 hours on; and any
  intact entry whose \<open>cached_at\<close> is 24 hours or more in the past is answered by
  \<open>None\<close>. The library is assumed to read back the timestamp it wrote.
\<close>

theorem cache_ttl:
  "(fromisoformat lib (isoformat lib t0) = Some t0 \<and> t1 - t0 < timedelta_hours 24 \<longrightarrow>
      get_cached_page lib cache_dir (update_cache lib cache_dir fs t0 page_id v) t1 page_id = Inr v)
   \<and> (fromisoformat lib (isoformat lib t0) = Some t0 \<and> timedelta_hours 24 \<le> t1 - t0 \<longrightarrow>
      get_cached_page lib cache_dir (update_cache lib cache_dir fs t0 page_id v) t1 page_id =
        Inr JNull)
   \<and> (fs (get_cache_path cache_dir page_id) = Some (Parsed (JObj kvs)) \<and>
      map_of kvs ''cached_at'' = Some (JStr stamp) \<and>
      fromisoformat lib stamp = Some last_updated \<and>
      timedelta_hours 24 \<le> now - last_updated \<longrightarrow>
      get_cached_page lib cache_dir fs now page_id = Inr JNull)"
  by (auto simp: get_after_update get_cached_page_dated)

theorem cache_ttl_witness:
  "fromisoformat example_clock (isoformat example_clock datetime_2024_01_02) = Some datetime_2024_01_02
   \<and> get_cached_page example_clock manager_cache_dir
        (update_cache example_clock manager_cache_dir old_page_cache datetime_2024_01_02 ''p1''
           (JObj [(''id'', JStr ''p1'')]))
        (datetime_2024_01_02 + timedelta_hours 1) ''p1'' = Inr (JObj [(''id'', JStr ''p1'')])
   \<and> get_cached_page example_clock manager_cache_dir
        (update_cache example_clock manager_cache_dir old_page_cache datetime_2024_01_02 ''p1''
           (JObj [(''id'', JStr ''p1'')]))
        (datetime_2024_01_02 + timedelta_hours 24) ''p1'' = Inr JNull
   \<and> get_cached_page example_clock manager_cache_dir old_page_cache
        (datetime_2024_01_02 + timedelta_hours 24) ''p1'' = Inr JNull"
proof -
  have rt: "fromisoformat example_clock (isoformat example_clock datetime_2024_01_02) =
      Some datetime_2024_01_02"
    by code_simp
  have f: "old_page_cache (get_cache_path manager_cache_dir ''p1'') =
      Some (Parsed (JObj [(''content'', JObj [(''id'', JStr ''old'')]),
                          (''cached_at'', JStr ''2024-01-02T00:00:00'')]))"
    by code_simp
  have s: "fromisoformat example_clock ''2024-01-02T00:00:00'' = Some datetime_2024_01_02"
    by code_simp
  have m: "map_of [(''content'', JObj [(''id'', JStr ''old'')]),
                   (''cached_at'', JStr ''2024-01-02T00:00:00'')] ''cached_at'' =
           Some (JStr ''2024-01-02T00:00:00'')"
    by simp
  from rt f s m
    cache_ttl [where lib = example_clock and ?t0.0 = datetime_2024_01_02
                 and ?t1.0 = "datetime_2024_01_02 + timedelta_hours 1"
                 and cache_dir = manager_cache_dir and page_id = "''p1''"
                 and v = "JObj [(''id'', JStr ''p1'')]" and fs = old_page_cache
                 and kvs = "[(''content'', JObj [(''id'', JStr ''old'')]),
                             (''cached_at'', JStr ''2024-01-02T00:00:00'')]"
                 and stamp = "''2024-01-02T00:00:00''" and last_updated = datetime_2024_01_02
                 and now = "datetime_2024_01_02 + timedelta_hours 24"]
    cache_ttl [where lib = example_clock and ?t0.0 = datetime_2024_01_02
                 and ?t1.0 = "datetime_2024_01_02 + timedelta_hours 24"
                 and cache_dir = manager_cache_dir and page_id = "''p1''"
                 and v = "JObj [(''id'', JStr ''p1'')]" and fs = old_page_cache]
  show ?thesis by (simp add: timedelta_hours_def)
qed

text \<open>
  C10. An entry that is a JSON object without \<open>cached_at\<close> is read with the timestamp
  \<open>'2000-01-01'\<close>: no exception, and, the clock being at 2000-01-02 or later, the lookup
  returns \<open>None\<close>.
\<close>

theorem missing_cached_at_is_expired:
  "fs (get_cache_path cache_dir page_id) = Some (Parsed (JObj kvs)) \<Longrightarrow>
   map_of kvs ''cached_at'' = None \<Longrightarrow>
   fromisoformat lib ''2000-01-01'' = Some datetime_2000_01_01 \<Longrightarrow>
   datetime_2000_01_01 + timedelta_hours 24 \<le> now \<Longrightarrow>
   get_cached_page lib cache_dir fs now page_id = Inr JNull"
  by (simp add: get_cached_page_undated)

theorem missing_cached_at_is_expired_witness:
  "undated_cache (get_cache_path manager_cache_dir ''p1'') =
     Some (Parsed (JObj [(''content'', JStr ''x'')]))
   \<and> map_of [(''content'', JStr ''x'')] ''cached_at'' = None
   \<and> fromisoformat example_clock ''2000-01-01'' = Some datetime_2000_01_01
   \<and> datetime_2000_01_01 + timedelta_hours 24 \<le> datetime_2024_01_02
   \<and> get_cached_page example_clock manager_cache_dir undated_cache datetime_2024_01_02 ''p1'' =
       Inr JNull"
proof -
  have f: "undated_cache (get_cache_path manager_cache_dir ''p1'') =
     Some (Parsed (JObj [(''content'', JStr ''x'')]))"
    by code_simp
  have m: "map_of [(''content'', JStr ''x'')] ''cached_at'' = None" by simp
  have c: "fromisoformat example_clock ''2000-01-01'' = Some datetime_2000_01_01" by code_simp
  have t: "datetime_2000_01_01 + timedelta_hours 24 \<le> datetime_2024_01_02"
    by (simp add: datetime_2000_01_01_def datetime_2024_01_02_def timedelta_hours_def)
  from f m c t
    missing_cached_at_is_expired [where fs = undated_cache and cache_dir = manager_cache_dir
      and page_id = "''p1''" and kvs = "[(''content'', JStr ''x'')]" and lib = example_clock
      and now = datetime_2024_01_02]
  show ?thesis by simp
qed

section \<open>Properties of the manager\<close>

lemma get_page_content_forced:
  "get_page_content lib cache_dir fs now page_id True = Inr JNull"
  by (simp add: get_page_content_def)

lemma get_page_fetch:
  "force_refresh \<or> get_page_content lib manager_cache_dir (files w) now_get page_id False = Inr JNull \<Longrightarrow>
   get_page lib http_get w now_get now_put page_id force_refresh =
     (case http_get (page_url page_id) of
        Inl e \<Rightarrow> (Inl e, w\<lparr>requests := requests w @ [page_url page_id]\<rparr>)
      | Inr page_data \<Rightarrow>
          (Inr page_data,
           \<lparr>files = update_cache lib manager_cache_dir (files w) now_put page_id page_data,
            requests = requests w @ [page_url page_id]\<rparr>))"
  by (cases force_refresh) (auto simp: get_page_def get_page_content_forced Let_def split: sum.splits)

lemma get_block_children_fetch:
  "force_refresh \<or>
   get_page_content lib manager_cache_dir (files w) now_get (block_id @ ''_children'') False =
     Inr JNull \<Longrightarrow>
   get_block_children lib http_get w now_get now_put block_id force_refresh =
     (case http_get (children_url block_id) of
        Inl e \<Rightarrow> (Inl e, w\<lparr>requests := requests w @ [children_url block_id]\<rparr>)
      | Inr body \<Rightarrow>
          (case py_get body ''results'' (JArr []) of
             Inl e \<Rightarrow> (Inl e, w\<lparr>requests := requests w @ [children_url block_id]\<rparr>)
           | Inr blocks_data \<Rightarrow>
               (Inr blocks_data,
                \<lparr>files = update_cache lib manager_cache_dir (files w) now_put
                           (block_id @ ''_children'') blocks_data,
                 requests = requests w @ [children_url block_id]\<rparr>)))"
  by (cases force_refresh)
     (auto simp: get_block_children_def get_page_content_forced Let_def split: sum.splits)

text \<open>A cached value that is truthy is returned without a request.\<close>

lemma get_page_hit:
  "get_cached_page lib manager_cache_dir (files w) now_get page_id = Inr v \<Longrightarrow> truthy v \<Longrightarrow>
   get_page lib http_get w now_get now_put page_id False = (Inr v, w)"
  by (simp add: get_page_def get_page_content_def)

lemma get_block_children_hit:
  "get_cached_page lib manager_cache_dir (files w) now_get (block_id @ ''_children'') = Inr v \<Longrightarrow>
   truthy v \<Longrightarrow>
   get_block_children lib http_get w now_get now_put block_id False = (Inr v, w)"
  by (simp add: get_block_children_def get_page_content_def)

text \<open>
  C3. The hit is tested by truth value (\<open>if cached_content:\<close>), so a valid entry whose
  value is an empty list is taken for a miss: the lookup returns the cached \<open>[]\<close>, yet
  \<open>get_block_children\<close> without \<open>force_refresh\<close> sends the request and returns the
  fetched list.
\<close>

theorem empty_cached_value_refetched:
  "get_cached_page example_clock manager_cache_dir empty_children_cache
     (datetime_2024_01_02 + timedelta_hours 1) ''b2_children'' = Inr (JArr [])
   \<and> requests (snd (get_block_children example_clock example_http
        \<lparr>files = empty_children_cache, requests = []\<rparr>
        (datetime_2024_01_02 + timedelta_hours 1) (datetime_2024_01_02 + timedelta_hours 1)
        ''b2'' False)) = [children_url ''b2'']
   \<and> fst (get_block_children example_clock example_http
        \<lparr>files = empty_children_cache, requests = []\<rparr>
        (datetime_2024_01_02 + timedelta_hours 1) (datetime_2024_01_02 + timedelta_hours 1)
        ''b2'' False) = Inr (JArr [JObj [(''type'', JStr ''paragraph'')]])"
  by code_simp

text \<open>
  C7. When the request fails on a miss or a forced refresh, \<open>get_page\<close> and
  \<open>get_block_children\<close> raise that same exception and leave every cache file as it was.
\<close>

theorem fetch_failure_leaves_cache:
  "(http_get (page_url page_id) = Inl e \<and>
    (force_refresh \<or>
     get_page_content lib manager_cache_dir (files w) now_get page_id False = Inr JNull) \<longrightarrow>
      fst (get_page lib http_get w now_get now_put page_id force_refresh) = Inl e \<and>
      files (snd (get_page lib http_get w now_get now_put page_id force_refresh)) = files w)
   \<and> (http_get (children_url block_id) = Inl e \<and>
    (force_refresh \<or>
     get_page_content lib manager_cache_dir (files w) now_get (block_id @ ''_children'') False =
       Inr JNull) \<longrightarrow>
      fst (get_block_children lib http_get w now_get now_put block_id force_refresh) = Inl e \<and>
      files (snd (get_block_children lib http_get w now_get now_put block_id force_refresh)) =
        files w)"
  by (auto simp: get_page_fetch get_block_children_fetch)

theorem fetch_failure_leaves_cache_witness:
  "example_http (page_url ''p9'') = Inl (RequestError ''404'')
   \<and> get_page_content example_clock manager_cache_dir (files \<lparr>files = old_page_cache, requests = []\<rparr>)
        datetime_2024_01_02 ''p9'' False = Inr JNull
   \<and> fst (get_page example_clock example_http \<lparr>files = old_page_cache, requests = []\<rparr>
        datetime_2024_01_02 datetime_2024_01_02 ''p9'' False) = Inl (RequestError ''404'')
   \<and> files (snd (get_page example_clock example_http \<lparr>files = old_page_cache, requests = []\<rparr>
        datetime_2024_01_02 datetime_2024_01_02 ''p9'' False)) = old_page_cache
   \<and> example_http (children_url ''p9'') = Inl (RequestError ''404'')
   \<and> fst (get_block_children example_clock example_http \<lparr>files = old_page_cache, requests = []\<rparr>
        datetime_2024_01_02 datetime_2024_01_02 ''p9'' True) = Inl (RequestError ''404'')
   \<and> files (snd (get_block_children example_clock example_http
        \<lparr>files = old_page_cache, requests = []\<rparr>
        datetime_2024_01_02 datetime_2024_01_02 ''p9'' True)) = old_page_cache"
proof -
  have a: "example_http (page_url ''p9'') = Inl (RequestError ''404'')" by code_simp
  have b: "get_page_content example_clock manager_cache_dir
      (files \<lparr>files = old_page_cache, requests = []\<rparr>) datetime_2024_01_02 ''p9'' False = Inr JNull"
    by code_simp
  have c: "example_http (children_url ''p9'') = Inl (RequestError ''404'')" by code_simp
  from a b c
    fetch_failure_leaves_cache [where http_get = example_http and page_id = "''p9''"
      and e = "RequestError ''404''" and force_refresh = False and lib = example_clock
      and w = "\<lparr>files = old_page_cache, requests = []\<rparr>" and now_get = datetime_2024_01_02
      and now_put = datetime_2024_01_02]
    fetch_failure_leaves_cache [where http_get = example_http and block_id = "''p9''"
      and e = "RequestError ''404''" and force_refresh = True and lib = example_clock
      and w = "\<lparr>files = old_page_cache, requests = []\<rparr>" and now_get = datetime_2024_01_02
      and now_put = datetime_2024_01_02]
  show ?thesis by simp
qed

text \<open>
  C8. With \<open>force_refresh\<close> the request is always sent, whatever the cache holds; when it
  returns, its result is returned and the cache file of the key is overwritten with that
  result and the time of the update.
\<close>

theorem force_refresh_overwrites:
  "requests (snd (get_page lib http_get w now_get now_put page_id True)) =
     requests w @ [page_url page_id]
   \<and> (http_get (page_url page_id) = Inr page_data \<longrightarrow>
      fst (get_page lib http_get w now_get now_put page_id True) = Inr page_data \<and>
      files (snd (get_page lib http_get w now_get now_put page_id True)) =
        (files w)(get_cache_path manager_cache_dir page_id \<mapsto>
           Parsed (JObj [(''content'', page_data),
                         (''cached_at'', JStr (isoformat lib now_put))])))
   \<and> requests (snd (get_block_children lib http_get w now_get now_put block_id True)) =
       requests w @ [children_url block_id]
   \<and> (http_get (children_url block_id) = Inr body \<and>
      py_get body ''results'' (JArr []) = Inr blocks_data \<longrightarrow>
      fst (get_block_children lib http_get w now_get now_put block_id True) = Inr blocks_data \<and>
      files (snd (get_block_children lib http_get w now_get now_put block_id True)) =
        (files w)(get_cache_path manager_cache_dir (block_id @ ''_children'') \<mapsto>
           Parsed (JObj [(''content'', blocks_data),
                         (''cached_at'', JStr (isoformat lib now_put))])))"
  by (auto simp: get_page_fetch get_block_children_fetch update_cache_def split: sum.splits)

theorem force_refresh_overwrites_witness:
  "get_cached_page example_clock manager_cache_dir old_page_cache
     (datetime_2024_01_02 + timedelta_hours 1) ''p1'' = Inr (JObj [(''id'', JStr ''old'')])
   \<and> example_http (page_url ''p1'') = Inr (JObj [(''id'', JStr ''p1'')])
   \<and> fst (get_page example_clock example_http \<lparr>files = old_page_cache, requests = []\<rparr>
        (datetime_2024_01_02 + timedelta_hours 1) (datetime_2024_01_02 + timedelta_hours 1)
        ''p1'' True) = Inr (JObj [(''id'', JStr ''p1'')])
   \<and> files (snd (get_page example_clock example_http \<lparr>files = old_page_cache, requests = []\<rparr>
        (datetime_2024_01_02 + timedelta_hours 1) (datetime_2024_01_02 + timedelta_hours 1)
        ''p1'' True)) =
      old_page_cache(get_cache_path manager_cache_dir ''p1'' \<mapsto>
        Parsed (JObj [(''content'', JObj [(''id'', JStr ''p1'')]),
                      (''cached_at'',
                       JStr (isoformat example_clock (datetime_2024_01_02 + timedelta_hours 1)))]))
   \<and> example_http (children_url ''b1'') = Inr (JObj [(''results'', JArr [])])
   \<and> py_get (JObj [(''results'', JArr [])]) ''results'' (JArr []) = Inr (JArr [])
   \<and> fst (get_block_children example_clock example_http \<lparr>files = old_page_cache, requests = []\<rparr>
        datetime_2024_01_02 datetime_2024_01_02 ''b1'' True) = Inr (JArr [])"
proof -
  have a: "get_cached_page example_clock manager_cache_dir old_page_cache
     (datetime_2024_01_02 + timedelta_hours 1) ''p1'' = Inr (JObj [(''id'', JStr ''old'')])"
    by code_simp
  have b: "example_http (page_url ''p1'') = Inr (JObj [(''id'', JStr ''p1'')])" by code_simp
  have c: "example_http (children_url ''b1'') = Inr (JObj [(''results'', JArr [])])" by code_simp
  have d: "py_get (JObj [(''results'', JArr [])]) ''results'' (JArr []) = Inr (JArr [])" by simp
  from a b c d
    force_refresh_overwrites [where http_get = example_http and page_id = "''p1''"
      and page_data = "JObj [(''id'', JStr ''p1'')]" and lib = example_clock
      and w = "\<lparr>files = old_page_cache, requests = []\<rparr>"
      and now_get = "datetime_2024_01_02 + timedelta_hours 1"
      and now_put = "datetime_2024_01_02 + timedelta_hours 1"]
    force_refresh_overwrites [where http_get = example_http and block_id = "''b1''"
      and body = "JObj [(''results'', JArr [])]" and blocks_data = "JArr []"
      and lib = example_clock and w = "\<lparr>files = old_page_cache, requests = []\<rparr>"
      and now_get = datetime_2024_01_02 and now_put = datetime_2024_01_02]
  show ?thesis by simp
qed

end
